theory Spec2Isabelle
  imports Complex_Main
begin

section \<open>Python values\<close>

text \<open>
  A Python \<open>dict\<close> with string keys is an association list in insertion order with
  distinct keys. \<open>dict_set\<close> is the assignment \<open>d[k] = v\<close>: it overwrites the value of
  a key that is present and appends a new key at the end. \<open>dict_get\<close> is \<open>d.get(k)\<close>.
  A Python \<open>str\<close> is the list of the bytes of its UTF-8 encoding.
\<close>

type_synonym 'v dict = "(string \<times> 'v) list"

definition dict_values :: "'v dict \<Rightarrow> 'v list" where
  "dict_values d = map snd d"

fun dict_set :: "string \<Rightarrow> 'v \<Rightarrow> 'v dict \<Rightarrow> 'v dict" where
  "dict_set k v [] = [(k, v)]"
| "dict_set k v ((k', v') # d) = (if k' = k then (k, v) # d else (k', v') # dict_set k v d)"

definition dict_get :: "'v dict \<Rightarrow> string \<Rightarrow> 'v option" where
  "dict_get d k = map_of d k"

section \<open>helpers.py: the traffic light and the final decision\<close>

text \<open>
  Numbers that the program holds as Python floats are real numbers here: IEEE rounding, NaN
  and the infinities are outside the model. Python integers are \<open>int\<close>.

  Every exception the code can raise is a value of \<open>error\<close>, and a function that can raise
  returns \<open>error + 'a\<close> with \<open>Inl\<close> for the exception.

  \<open>traffic\<close> is the three-way classifier: GREEN when the first predicate holds, else YELLOW
  when the second holds, else RED.

  \<open>score_map[s]\<close> raises \<open>KeyError\<close> for a label that is not a key of \<open>score_map\<close>; the
  generator inside \<open>sum\<close> reads the values in order, so the first such label is the one
  reported.
\<close>

datatype error = KeyError string | ValidationError string | OverflowError | Exception string

definition GREEN :: string where "GREEN = ''GREEN''"
definition YELLOW :: string where "YELLOW = ''YELLOW''"
definition RED :: string where "RED = ''RED''"

definition traffic :: "'a \<Rightarrow> ('a \<Rightarrow> bool) \<Rightarrow> ('a \<Rightarrow> bool) \<Rightarrow> string" where
  "traffic v green_fn yellow_fn =
     (if green_fn v then GREEN else if yellow_fn v then YELLOW else RED)"

definition ENTER_ALL_GREEN :: string where
  "ENTER_ALL_GREEN = ''ENTER (All green) '' @ [CHR 0xE2, CHR 0x9C, CHR 0x85]"
definition ENTER_CAUTION :: string where
  "ENTER_CAUTION = ''ENTER '' @ [CHR 0xE2, CHR 0x80, CHR 0x94] @ '' CAUTION ''
     @ [CHR 0xE2, CHR 0x9A, CHR 0xA0, CHR 0xEF, CHR 0xB8, CHR 0x8F]"
definition WAIT :: string where
  "WAIT = ''WAIT '' @ [CHR 0xE2, CHR 0x9D, CHR 0x8C]"

definition score_map :: "int dict" where
  "score_map = [(GREEN, 2), (YELLOW, 1), (RED, 0)]"

fun sum_scores :: "string list \<Rightarrow> error + int" where
  "sum_scores [] = Inr 0"
| "sum_scores (s # ss) =
     (case map_of score_map s of
        None \<Rightarrow> Inl (KeyError s)
      | Some v \<Rightarrow> (case sum_scores ss of Inl e \<Rightarrow> Inl e | Inr t \<Rightarrow> Inr (v + t)))"

definition final_decision :: "string dict \<Rightarrow> error + string" where
  "final_decision statuses =
     (case sum_scores (dict_values statuses) of
        Inl e \<Rightarrow> Inl e
      | Inr score \<Rightarrow>
          (let reds = int (length (filter (\<lambda>s. s = RED) (dict_values statuses)));
               n = int (length statuses)
           in if score = 2 * n \<and> reds = 0 then Inr ENTER_ALL_GREEN
              else if score \<ge> 2 * (n - 1) \<and> reds = 0 then Inr ENTER_CAUTION
              else Inr WAIT))"


section \<open>validation.py\<close>

text \<open>
  The user inputs are a dict with a fixed set of keys; it is a record with one field per
  key. \<open>str_int\<close> is Python's decimal rendering of an integer, which the messages of
  \<open>validate_range\<close> contain; its bounds are the integers its callers pass.
\<close>

record input_record =
  symbol :: string
  price :: real
  put_strike :: real
  call_strike :: real
  front_put_iv :: real
  front_call_iv :: real
  back_put_iv :: real
  back_call_iv :: real
  iv_rank_pct :: real
  days_to_event :: int
  vix_value :: real
  atr_points :: real
  use_atr :: bool

fun str_nat :: "nat \<Rightarrow> string" where
  "str_nat n =
     (if n < 10 then [char_of (48 + n)] else str_nat (n div 10) @ [char_of (48 + n mod 10)])"

definition str_int :: "int \<Rightarrow> string" where
  "str_int i = (if i < 0 then ''-'' @ str_nat (nat (- i)) else str_nat (nat i))"

definition validate_positive :: "real \<Rightarrow> string \<Rightarrow> error + real" where
  "validate_positive v name =
     (if v \<le> 0 then Inl (ValidationError (name @ '' must be greater than zero'')) else Inr v)"

definition validate_range :: "real \<Rightarrow> string \<Rightarrow> int option \<Rightarrow> int option \<Rightarrow> error + real" where
  "validate_range v name min_val max_val =
     (if min_val \<noteq> None \<and> v < real_of_int (the min_val)
      then Inl (ValidationError (name @ '' must be at least '' @ str_int (the min_val)))
      else if max_val \<noteq> None \<and> v > real_of_int (the max_val)
      then Inl (ValidationError (name @ '' must be at most '' @ str_int (the max_val)))
      else Inr v)"

definition strikes_message :: string where
  "strikes_message = ''Put strike should be less than call strike for typical strategies''"

definition validate_strikes :: "real \<Rightarrow> real \<Rightarrow> error + bool" where
  "validate_strikes put call =
     (if put \<ge> call then Inl (ValidationError strikes_message) else Inr True)"

text \<open>
  \<open>and_then\<close> runs the next statement when the previous call returned, and stops with the
  exception when it raised.
\<close>

definition and_then :: "error + 'a \<Rightarrow> error + 'b \<Rightarrow> error + 'b" where
  "and_then r k = (case r of Inl e \<Rightarrow> Inl e | Inr _ \<Rightarrow> k)"

definition validate_inputs :: "input_record \<Rightarrow> error + input_record" where
  "validate_inputs inp =
     and_then (validate_positive (price inp) ''Price'')
    (and_then (validate_positive (put_strike inp) ''Put strike'')
    (and_then (validate_positive (call_strike inp) ''Call strike'')
    (and_then (validate_strikes (put_strike inp) (call_strike inp))
    (and_then (validate_range (front_put_iv inp) ''Front-week PUT IV'' (Some 0) None)
    (and_then (validate_range (front_call_iv inp) ''Front-week CALL IV'' (Some 0) None)
    (and_then (validate_range (back_put_iv inp) ''Back-week PUT IV'' (Some 0) None)
    (and_then (validate_range (back_call_iv inp) ''Back-week CALL IV'' (Some 0) None)
    (and_then (validate_range (iv_rank_pct inp) ''IV Rank'' (Some 0) (Some 100))
    (and_then (validate_range (real_of_int (days_to_event inp)) ''Days to event'' (Some 0) None)
    (and_then (validate_positive (vix_value inp) ''VIX value'')
    (and_then (if use_atr inp then validate_positive (atr_points inp) ''ATR points''
               else Inr (atr_points inp))
              (Inr inp))))))))))))"

section \<open>options\_model.py\<close>

text \<open>
  The model object holds the inputs, the metrics (the empty dict until they are computed:
  \<open>None\<close>) and the statuses (the empty dict until they are evaluated). A method returns its
  result together with the object as it leaves it. The metrics dict repeats the inputs'
  \<open>use_atr\<close> and \<open>atr_points\<close>; these two fields carry the prefix \<open>metrics_\<close>.
  The float literal \<open>1e-9\<close> is written \<open>1 / 10 ^ 9\<close>. The divisions of \<open>compute_metrics\<close>
  are exact here, where the program rounds to the nearest double.
\<close>

record metrics_snapshot =
  midpoint :: real
  dist_from_mid :: real
  strike_width :: real
  front_avg_iv :: real
  back_avg_iv :: real
  term_gap_pts :: real
  iv_rank :: real
  atr_ok :: bool
  metrics_use_atr :: bool
  metrics_atr_points :: real

record options_model =
  inputs :: input_record
  metrics :: "metrics_snapshot option"
  statuses :: "string dict"

definition OptionsModel_init :: "input_record \<Rightarrow> error + options_model" where
  "OptionsModel_init inp =
     (case validate_inputs inp of
        Inl e \<Rightarrow> Inl e
      | Inr _ \<Rightarrow> Inr \<lparr>inputs = inp, metrics = None, statuses = []\<rparr>)"

definition compute_metrics :: "options_model \<Rightarrow> metrics_snapshot \<times> options_model" where
  "compute_metrics self =
     (let inp = inputs self;
          mid = (put_strike inp + call_strike inp) / 2;
          dist = (if mid \<noteq> 0 then \<bar>price inp - mid\<bar> / mid else 1);
          width = \<bar>call_strike inp - put_strike inp\<bar>;
          front_avg = (front_put_iv inp + front_call_iv inp) / 2;
          back_avg = (back_put_iv inp + back_call_iv inp) / 2;
          ms = \<lparr>midpoint = mid,
                dist_from_mid = dist,
                strike_width = width,
                front_avg_iv = front_avg,
                back_avg_iv = back_avg,
                term_gap_pts = front_avg - back_avg,
                iv_rank = iv_rank_pct inp / 100,
                atr_ok = (atr_points inp \<le> max (1 / 10 ^ 9) (width / 2)),
                metrics_use_atr = use_atr inp,
                metrics_atr_points = atr_points inp\<rparr>
      in (ms, self\<lparr>metrics := Some ms\<rparr>))"

definition evaluate_status_lights :: "options_model \<Rightarrow> string dict \<times> options_model" where
  "evaluate_status_lights self =
     (let self1 = (case metrics self of None \<Rightarrow> snd (compute_metrics self) | Some _ \<Rightarrow> self);
          ms = (case metrics self1 of None \<Rightarrow> fst (compute_metrics self1) | Some x \<Rightarrow> x);
          inp = inputs self1;
          st0 = [];
          st1 = dict_set ''Price Location''
                  (traffic (dist_from_mid ms) (\<lambda>x. x \<le> 0.01) (\<lambda>x. x \<le> 0.02)) st0;
          st2 = dict_set ''Term Structure''
                  (traffic (term_gap_pts ms) (\<lambda>x. x \<ge> 2) (\<lambda>x. x \<ge> 1)) st1;
          st3 = dict_set ''IV Rank''
                  (traffic (iv_rank ms)
                     (\<lambda>x. 0.30 \<le> x \<and> x \<le> 0.50)
                     (\<lambda>x. (0.20 \<le> x \<and> x < 0.30) \<or> (0.50 < x \<and> x \<le> 0.60))) st2;
          st4 = dict_set ''Event Proximity''
                  (traffic (days_to_event inp) (\<lambda>x. 3 \<le> x \<and> x \<le> 7) (\<lambda>x. 1 \<le> x \<and> x \<le> 2)) st3;
          st5 = dict_set ''VIX''
                  (traffic (vix_value inp) (\<lambda>x. 14 \<le> x \<and> x \<le> 20) (\<lambda>x. 20 < x \<and> x \<le> 25)) st4;
          st6 = (if use_atr inp
                 then dict_set ''ATR Guardrail''
                        (traffic (atr_ok ms) (\<lambda>ok. ok = True) (\<lambda>ok. False)) st5
                 else st5)
      in (st6, self1\<lparr>statuses := st6\<rparr>))"

definition get_final_decision :: "options_model \<Rightarrow> (error + string) \<times> options_model" where
  "get_final_decision self =
     (let self1 = (if statuses self = [] then snd (evaluate_status_lights self) else self)
      in (final_decision (statuses self1), self1))"

definition NO_TRADE :: string where
  "NO_TRADE = ''No trade '' @ [CHR 0xC3, CHR 0xA2, CHR 0xE2, CHR 0x82, CHR 0xAC, CHR 0xE2, CHR 0x80, CHR 0x9D]
     @ '' wait for better IV/term structure or re-center strikes''"

definition DOUBLE_CALENDAR :: string where
  "DOUBLE_CALENDAR = ''Double Calendar (front week vs back week)''"

definition OTM_VERTICAL :: string where
  "OTM_VERTICAL = ''Cheaper OTM Vertical (directional)''"

definition IRON_CONDOR :: string where
  "IRON_CONDOR = ''Short-duration Iron Condor (range)''"

definition get_strategy_suggestions :: "options_model \<Rightarrow> string list \<times> options_model" where
  "get_strategy_suggestions self =
     (let self1 = (case metrics self of None \<Rightarrow> snd (compute_metrics self) | Some _ \<Rightarrow> self);
          self2 = (if statuses self1 = [] then snd (evaluate_status_lights self1) else self1);
          ms = (case metrics self2 of None \<Rightarrow> fst (compute_metrics self2) | Some x \<Rightarrow> x);
          st = statuses self2;
          s0 = [];
          s1 = (if dict_get st ''IV Rank'' = Some GREEN
                   \<and> dict_get st ''Term Structure'' \<in> {Some GREEN, Some YELLOW}
                   \<and> dict_get st ''Price Location'' \<noteq> Some RED
                then s0 @ [DOUBLE_CALENDAR] else s0);
          s2 = (if iv_rank ms < 0.25 \<and> dict_get st ''Price Location'' = Some GREEN
                then s1 @ [OTM_VERTICAL] else s1);
          s3 = (if 0.45 < iv_rank ms \<and> iv_rank ms \<le> 0.60
                   \<and> vix_value (inputs self2) \<ge> 18
                   \<and> dict_get st ''Price Location'' = Some GREEN
                then s2 @ [IRON_CONDOR] else s2);
          s4 = (if s3 = [] then s3 @ [NO_TRADE] else s3)
      in (s4, self2))"

section \<open>ibkr\_client.py\<close>

text \<open>
  What the client reads from outside the program is a record of the environment: whether
  \<open>ensure_connected()\<close> succeeds, whether the \<open>Option\<close> class and the \<open>yfinance\<close> module were
  imported, the fields of the live ticker, and the outcome of the two history requests,
  each either the exception it raised or the column of closes. A close of \<open>None\<close> stands
  for a value that is \<open>None\<close>, NaN or infinite, which the code filters out. \<open>iv_bars\<close> is the
  outcome of the first \<open>try\<close> block of \<open>get_iv_rank\<close> up to and including
  \<open>reqHistoricalData\<close>: any step of the contract discovery may raise.
\<close>

record provider_env =
  connected :: bool
  option_class :: bool
  yf_module :: bool
  ticker_last :: "real option"
  ticker_bid :: "real option"
  ticker_ask :: "real option"
  ticker_close :: "real option"
  iv_bars :: "error + real option list"
  vix_closes :: "error + real option list"

text \<open>
  The body of \<open>get_underlying_price\<close> ends after the connection check: both paths leave
  the function with Python's implicit \<open>None\<close>. The statements that read the ticker stand
  after the last \<open>return\<close> of \<open>get_iv_rank\<close>, where they are never executed.
\<close>

definition get_underlying_price :: "provider_env \<Rightarrow> real option" where
  "get_underlying_price env = (if \<not> connected env then None else None)"

text \<open>
  \<open>get_iv_rank\<close> is its two \<open>try\<close> blocks in sequence. \<open>iv_rank_primary\<close> is the first
  block: \<open>Some rank\<close> when it returns the rank, \<open>None\<close> when control reaches the fallback
  (the condition is false, the series is short or flat, or an exception was caught).
  \<open>iv_rank_fallback\<close> is the second block together with the final \<open>return None\<close>.
\<close>

definition iv_rank_primary :: "provider_env \<Rightarrow> real option" where
  "iv_rank_primary env =
     (if connected env \<and> option_class env then
        (case iv_bars env of
           Inl e \<Rightarrow> None
         | Inr bars \<Rightarrow>
             (let series = List.map_filter (\<lambda>c. c) bars in
              if length series \<ge> 5 then
                (let cur = last series;
                     lo = Min (set series);
                     hi = Max (set series)
                 in if hi > lo
                    then (let rank = (cur - lo) / (hi - lo) * 100
                          in Some (max 0 (min 100 rank)))
                    else None)
              else None))
      else None)"

definition iv_rank_fallback :: "provider_env \<Rightarrow> real option" where
  "iv_rank_fallback env =
     (if \<not> yf_module env then None
      else (case vix_closes env of
              Inl e \<Rightarrow> None
            | Inr closes \<Rightarrow>
                if closes = [] then None
                else (let s = List.map_filter (\<lambda>c. c) closes in
                      if s = [] then None
                      else (let cur = last s;
                                lo = Min (set s);
                                hi = Max (set s)
                            in if hi > lo
                               then (let rank = (cur - lo) / (hi - lo) * 100
                                     in Some (max 0 (min 100 rank)))
                               else None))))"

definition get_iv_rank :: "provider_env \<Rightarrow> real option" where
  "get_iv_rank env =
     (case iv_rank_primary env of
        Some rank \<Rightarrow> Some rank
      | None \<Rightarrow> iv_rank_fallback env)"

text \<open>
  A \<open>datetime.date\<close> is its proleptic Gregorian ordinal: day 1 is 0001-01-01, a Monday, and
  the last date, 9999-12-31, is day 3652059. \<open>weekday\<close> is Monday = 0 to Sunday = 6. Adding
  a \<open>timedelta\<close> of whole days raises \<open>OverflowError\<close> when the result is not a date.
  \<open>nearest_two_fridays\<close> takes the optional reference date and the value of
  \<open>date.today()\<close>, which it reads when no reference date is given.
\<close>

type_synonym date = int

definition MAXORDINAL :: int where
  "MAXORDINAL = 3652059"

definition is_date :: "date \<Rightarrow> bool" where
  "is_date d = (1 \<le> d \<and> d \<le> MAXORDINAL)"

definition weekday :: "date \<Rightarrow> int" where
  "weekday d = (d + 6) mod 7"

definition date_add :: "date \<Rightarrow> int \<Rightarrow> error + date" where
  "date_add d days =
     (let ordinal = d + days
      in if 0 < ordinal \<and> ordinal \<le> MAXORDINAL then Inr ordinal else Inl OverflowError)"

definition nearest_two_fridays :: "date option \<Rightarrow> date \<Rightarrow> error + (date \<times> date)" where
  "nearest_two_fridays from_date today =
     (let d = (case from_date of Some x \<Rightarrow> x | None \<Rightarrow> today);
          days_ahead = (4 - weekday d) mod 7
      in case (if days_ahead = 0 then Inr d else date_add d days_ahead) of
           Inl e \<Rightarrow> Inl e
         | Inr first \<Rightarrow>
             (case date_add first 7 of
                Inl e \<Rightarrow> Inl e
              | Inr second \<Rightarrow> Inr (first, second)))"

section \<open>tests/test\_options\_model.py: the valid inputs\<close>

definition valid_inputs :: input_record where
  "valid_inputs =
     \<lparr>symbol = ''SPY'', price = 435, put_strike = 425, call_strike = 445,
      front_put_iv = 22, front_call_iv = 20, back_put_iv = 18, back_call_iv = 19,
      iv_rank_pct = 45, days_to_event = 5, vix_value = 18, atr_points = 4, use_atr = True\<rparr>"

section \<open>Facts about the final decision\<close>

lemma labels_distinct:
  "ENTER_ALL_GREEN \<noteq> ENTER_CAUTION" "ENTER_ALL_GREEN \<noteq> WAIT" "ENTER_CAUTION \<noteq> WAIT"
  by (simp_all add: ENTER_ALL_GREEN_def ENTER_CAUTION_def WAIT_def)

lemma status_distinct:
  "GREEN \<noteq> YELLOW" "GREEN \<noteq> RED" "YELLOW \<noteq> RED"
  by (simp_all add: GREEN_def YELLOW_def RED_def)

lemma sum_scores_valid:
  "\<forall>s \<in> set vs. s = GREEN \<or> s = YELLOW \<or> s = RED \<Longrightarrow>
   sum_scores vs = Inr (2 * int (count_list vs GREEN) + int (count_list vs YELLOW))"
  using status_distinct by (induction vs) (auto simp: score_map_def)

lemma sum_scores_Inr_valid:
  "sum_scores vs = Inr t \<Longrightarrow> \<forall>s \<in> set vs. s = GREEN \<or> s = YELLOW \<or> s = RED"
proof (induction vs arbitrary: t)
  case Nil
  then show ?case by simp
next
  case (Cons v vs)
  from Cons.prems obtain a where a: "map_of score_map v = Some a"
    by (auto split: option.splits)
  with Cons.prems obtain t' where t': "sum_scores vs = Inr t'"
    by (auto split: sum.splits)
  from a have "v = GREEN \<or> v = YELLOW \<or> v = RED"
    by (auto simp: score_map_def split: if_splits)
  with Cons.IH [OF t'] show ?case by simp
qed

lemma count_partition:
  "\<forall>s \<in> set vs. s = GREEN \<or> s = YELLOW \<or> s = RED \<Longrightarrow>
   count_list vs GREEN + count_list vs YELLOW + count_list vs RED = length vs"
  using status_distinct by (induction vs) auto

lemma reds_count: "length (filter (\<lambda>s. s = RED) vs) = count_list vs RED"
  by (induction vs) auto

lemma final_decision_valid:
  assumes "\<forall>s \<in> set (dict_values sm). s = GREEN \<or> s = YELLOW \<or> s = RED"
  shows "final_decision sm =
     (if count_list (dict_values sm) RED \<noteq> 0 then Inr WAIT
      else if count_list (dict_values sm) YELLOW = 0 then Inr ENTER_ALL_GREEN
      else if count_list (dict_values sm) YELLOW \<le> 2 then Inr ENTER_CAUTION
      else Inr WAIT)"
proof -
  let ?vs = "dict_values sm"
  define g where "g = count_list ?vs GREEN"
  define y where "y = count_list ?vs YELLOW"
  define r where "r = count_list ?vs RED"
  have n: "length sm = g + y + r"
    using count_partition [OF assms] by (simp add: dict_values_def g_def y_def r_def)
  have sc: "sum_scores ?vs = Inr (2 * int g + int y)"
    using sum_scores_valid [OF assms] by (simp add: g_def y_def)
  have rd: "length (filter (\<lambda>s. s = RED) ?vs) = r"
    by (simp add: reds_count r_def)
  have "final_decision sm =
     (if r \<noteq> 0 then Inr WAIT
      else if y = 0 then Inr ENTER_ALL_GREEN
      else if y \<le> 2 then Inr ENTER_CAUTION
      else Inr WAIT)"
    unfolding final_decision_def sc rd n Let_def by (simp; linarith)
  then show ?thesis by (simp add: g_def y_def r_def)
qed


lemma dict_set_values_subset:
  "set (dict_values (dict_set k v d)) \<subseteq> insert v (set (dict_values d))"
  by (induction k v d rule: dict_set.induct) (auto simp: dict_values_def)

lemma dict_set_values_mem:
  "v \<in> set (dict_values (dict_set k v d))"
  by (induction k v d rule: dict_set.induct) (auto simp: dict_values_def)

lemma red_count: "count_list vs RED \<noteq> 0 \<longleftrightarrow> RED \<in> set vs"
  by (induction vs) auto

text \<open>
  Claim C10. Applied to the empty status mapping, \<open>final_decision\<close> returns the full-entry
  label: the number of rules is 0, the score is 0, which is twice the number of rules, and
  no status is RED. The result is neither an error nor the wait label.
\<close>

theorem final_decision_empty:
  "final_decision [] = Inr ENTER_ALL_GREEN
   \<and> int (length ([] :: string dict)) = 0
   \<and> sum_scores (dict_values []) = Inr (2 * int (length ([] :: string dict)))
   \<and> length (filter (\<lambda>s. s = RED) (dict_values [])) = 0
   \<and> final_decision [] \<noteq> Inr WAIT
   \<and> \<not> isl (final_decision [])"
  using labels_distinct by (simp add: final_decision_def dict_values_def)

text \<open>
  Claim C1, as amended. Let the statuses all be labels of \<open>score_map\<close>, with aggregate score
  \<open>score\<close> and \<open>n\<close> rules. If no rule is RED and \<open>2 (n - 1) \<le> score < 2 n\<close>, then
  \<open>final_decision\<close> returns the cautious-entry label. That case holds exactly when one or two
  rules are YELLOW and every other rule is GREEN, and cautious entry is returned for no
  other mapping: two YELLOW statuses lower the score by 2, which the bound \<open>2 (n - 1)\<close>
  still admits.
\<close>

theorem final_decision_cautious:
  assumes "sum_scores (dict_values sm) = Inr score"
      and "n = int (length sm)"
  shows "(RED \<notin> set (dict_values sm) \<and> 2 * (n - 1) \<le> score \<and> score < 2 * n
            \<longrightarrow> final_decision sm = Inr ENTER_CAUTION)
       \<and> ((RED \<notin> set (dict_values sm) \<and> 2 * (n - 1) \<le> score \<and> score < 2 * n)
            \<longleftrightarrow> (count_list (dict_values sm) YELLOW \<in> {1, 2}
                 \<and> (\<forall>s \<in> set (dict_values sm). s = GREEN \<or> s = YELLOW)))
       \<and> (final_decision sm = Inr ENTER_CAUTION
            \<longleftrightarrow> (count_list (dict_values sm) YELLOW \<in> {1, 2}
                 \<and> (\<forall>s \<in> set (dict_values sm). s = GREEN \<or> s = YELLOW)))"
proof -
  let ?vs = "dict_values sm"
  have valid: "\<forall>s \<in> set ?vs. s = GREEN \<or> s = YELLOW \<or> s = RED"
    using assms(1) by (rule sum_scores_Inr_valid)
  have part: "count_list ?vs GREEN + count_list ?vs YELLOW + count_list ?vs RED = length ?vs"
    using valid by (rule count_partition)
  have score: "score = 2 * int (count_list ?vs GREEN) + int (count_list ?vs YELLOW)"
    using sum_scores_valid [OF valid] assms(1) by simp
  have n: "n = int (length ?vs)"
    using assms(2) by (simp add: dict_values_def)
  have nored: "(\<forall>s \<in> set ?vs. s = GREEN \<or> s = YELLOW) \<longleftrightarrow> RED \<notin> set ?vs"
    using valid status_distinct by auto
  have band: "(RED \<notin> set ?vs \<and> 2 * (n - 1) \<le> score \<and> score < 2 * n)
      \<longleftrightarrow> (count_list ?vs YELLOW \<in> {1, 2} \<and> RED \<notin> set ?vs)"
  proof (cases "RED \<in> set ?vs")
    case True
    then show ?thesis by simp
  next
    case False
    then have "count_list ?vs RED = 0" using red_count by blast
    with part have "int (length ?vs) = int (count_list ?vs GREEN) + int (count_list ?vs YELLOW)"
      by linarith
    with False show ?thesis unfolding score n by (simp; linarith)
  qed
  have dec: "final_decision sm = Inr ENTER_CAUTION
      \<longleftrightarrow> (count_list ?vs YELLOW \<in> {1, 2} \<and> RED \<notin> set ?vs)"
    unfolding final_decision_valid [OF valid] using labels_distinct red_count [of ?vs]
    by (auto simp: )
  from band dec nored show ?thesis by blast
qed

text \<open>
  The amended claim at the five base rules with Event Proximity YELLOW and the rest GREEN
  (score 9 of 10).
\<close>

theorem final_decision_cautious_witness:
  "final_decision [(''Price Location'', GREEN), (''Term Structure'', GREEN), (''IV Rank'', GREEN),
                   (''Event Proximity'', YELLOW), (''VIX'', GREEN)] = Inr ENTER_CAUTION
   \<and> sum_scores (dict_values [(''Price Location'', GREEN), (''Term Structure'', GREEN),
         (''IV Rank'', GREEN), (''Event Proximity'', YELLOW), (''VIX'', GREEN)]) = Inr 9
   \<and> count_list (dict_values [(''Price Location'', GREEN), (''Term Structure'', GREEN),
         (''IV Rank'', GREEN), (''Event Proximity'', YELLOW), (''VIX'', GREEN)]) YELLOW = 1"
proof -
  let ?st = "[(''Price Location'', GREEN), (''Term Structure'', GREEN), (''IV Rank'', GREEN),
              (''Event Proximity'', YELLOW), (''VIX'', GREEN)]"
  have sc: "sum_scores (dict_values ?st) = Inr 9"
    by (simp add: dict_values_def score_map_def GREEN_def YELLOW_def RED_def)
  have n: "(5::int) = int (length ?st)" by simp
  have nored: "RED \<notin> set (dict_values ?st)"
    by (simp add: dict_values_def GREEN_def YELLOW_def RED_def)
  have cnt: "count_list (dict_values ?st) YELLOW = 1"
    by (simp add: dict_values_def GREEN_def YELLOW_def)
  from final_decision_cautious [OF sc n] nored
  have "final_decision ?st = Inr ENTER_CAUTION" by simp
  with sc cnt show ?thesis by simp
qed

text \<open>
  Claim C1 as stated fails: with Term Structure and Event Proximity both YELLOW and the
  other three rules GREEN, no rule is RED, the score is 8 and \<open>2 (5 - 1) \<le> 8 < 2 * 5\<close>, the
  decision is cautious entry, and two rules are YELLOW, not one.
\<close>

theorem final_decision_two_yellows:
  "RED \<notin> set (dict_values [(''Price Location'', GREEN), (''Term Structure'', YELLOW),
         (''IV Rank'', GREEN), (''Event Proximity'', YELLOW), (''VIX'', GREEN)])
   \<and> sum_scores (dict_values [(''Price Location'', GREEN), (''Term Structure'', YELLOW),
         (''IV Rank'', GREEN), (''Event Proximity'', YELLOW), (''VIX'', GREEN)]) = Inr 8
   \<and> 2 * (int (length [(''Price Location'', GREEN), (''Term Structure'', YELLOW),
         (''IV Rank'', GREEN), (''Event Proximity'', YELLOW), (''VIX'', GREEN)]) - 1) \<le> 8
   \<and> 8 < 2 * int (length [(''Price Location'', GREEN), (''Term Structure'', YELLOW),
         (''IV Rank'', GREEN), (''Event Proximity'', YELLOW), (''VIX'', GREEN)])
   \<and> final_decision [(''Price Location'', GREEN), (''Term Structure'', YELLOW),
         (''IV Rank'', GREEN), (''Event Proximity'', YELLOW), (''VIX'', GREEN)] = Inr ENTER_CAUTION
   \<and> count_list (dict_values [(''Price Location'', GREEN), (''Term Structure'', YELLOW),
         (''IV Rank'', GREEN), (''Event Proximity'', YELLOW), (''VIX'', GREEN)]) YELLOW = 2"
  by (simp add: final_decision_def dict_values_def score_map_def GREEN_def YELLOW_def RED_def)

text \<open>
  Claim C3. For every status mapping (every label one of GREEN, YELLOW, RED) and every rule
  name \<open>k\<close>, setting the status of \<open>k\<close> to RED and leaving the other statuses as they are
  makes \<open>final_decision\<close> return the wait label, the least permissive of the three, whatever
  the decision was before; and whenever some status of the mapping is RED,
  \<open>final_decision\<close> returns the wait label, whatever the score is.
\<close>

theorem final_decision_red_waits:
  assumes "\<forall>s \<in> set (dict_values sm). s = GREEN \<or> s = YELLOW \<or> s = RED"
  shows "final_decision (dict_set k RED sm) = Inr WAIT
       \<and> (RED \<in> set (dict_values sm) \<longrightarrow> final_decision sm = Inr WAIT)"
proof -
  have valid': "\<forall>s \<in> set (dict_values (dict_set k RED sm)). s = GREEN \<or> s = YELLOW \<or> s = RED"
    using assms dict_set_values_subset [of k RED sm] by blast
  have "count_list (dict_values (dict_set k RED sm)) RED \<noteq> 0"
    using dict_set_values_mem [of RED k sm] red_count by blast
  then have after: "final_decision (dict_set k RED sm) = Inr WAIT"
    using final_decision_valid [OF valid'] by simp
  have "final_decision sm = Inr WAIT" if "RED \<in> set (dict_values sm)"
  proof -
    from that have "count_list (dict_values sm) RED \<noteq> 0" using red_count by blast
    then show ?thesis using final_decision_valid [OF assms] by simp
  qed
  with after show ?thesis by blast
qed

text \<open>
  The five base rules all GREEN give full entry; with the status of VIX replaced by RED the
  decision is to wait.
\<close>

theorem final_decision_red_waits_witness:
  "final_decision [(''Price Location'', GREEN), (''Term Structure'', GREEN), (''IV Rank'', GREEN),
                   (''Event Proximity'', GREEN), (''VIX'', GREEN)] = Inr ENTER_ALL_GREEN
   \<and> dict_set ''VIX'' RED [(''Price Location'', GREEN), (''Term Structure'', GREEN),
         (''IV Rank'', GREEN), (''Event Proximity'', GREEN), (''VIX'', GREEN)]
       = [(''Price Location'', GREEN), (''Term Structure'', GREEN), (''IV Rank'', GREEN),
          (''Event Proximity'', GREEN), (''VIX'', RED)]
   \<and> final_decision [(''Price Location'', GREEN), (''Term Structure'', GREEN), (''IV Rank'', GREEN),
                     (''Event Proximity'', GREEN), (''VIX'', RED)] = Inr WAIT"
proof -
  let ?a = "[(''Price Location'', GREEN), (''Term Structure'', GREEN), (''IV Rank'', GREEN),
             (''Event Proximity'', GREEN), (''VIX'', GREEN)]"
  let ?b = "[(''Price Location'', GREEN), (''Term Structure'', GREEN), (''IV Rank'', GREEN),
             (''Event Proximity'', GREEN), (''VIX'', RED)]"
  have va: "\<forall>s \<in> set (dict_values ?a). s = GREEN \<or> s = YELLOW \<or> s = RED"
    by (simp add: dict_values_def)
  have vb: "\<forall>s \<in> set (dict_values ?b). s = GREEN \<or> s = YELLOW \<or> s = RED"
    by (simp add: dict_values_def)
  have upd: "dict_set ''VIX'' RED ?a = ?b" by simp
  have red: "RED \<in> set (dict_values ?b)" by (simp add: dict_values_def)
  have green: "final_decision ?a = Inr ENTER_ALL_GREEN"
    by (simp add: final_decision_def dict_values_def score_map_def GREEN_def YELLOW_def RED_def)
  from final_decision_red_waits [OF va, of "''VIX''"] upd
  have w1: "final_decision ?b = Inr WAIT" by simp
  from final_decision_red_waits [OF vb, of "''VIX''"] red
  have w2: "final_decision ?b = Inr WAIT" by simp
  from green upd w1 w2 show ?thesis by simp
qed

section \<open>Facts about validation and the options model\<close>

lemma and_then_Inr [simp]: "and_then (Inr x) k = k"
  by (simp add: and_then_def)

lemma and_then_Inl [simp]: "and_then (Inl e) k = Inl e"
  by (simp add: and_then_def)

lemma traffic_cases: "traffic v g y = GREEN \<or> traffic v g y = YELLOW \<or> traffic v g y = RED"
  by (simp add: traffic_def)

lemma compute_metrics_inputs [simp]:
  "inputs (snd (compute_metrics self)) = inputs self"
  "metrics (snd (compute_metrics self)) = Some (fst (compute_metrics self))"
  "statuses (snd (compute_metrics self)) = statuses self"
  by (simp_all add: compute_metrics_def Let_def)

lemma compute_metrics_fields [simp]:
  "dist_from_mid (fst (compute_metrics self)) =
     (if (put_strike (inputs self) + call_strike (inputs self)) / 2 \<noteq> 0
      then \<bar>price (inputs self) - (put_strike (inputs self) + call_strike (inputs self)) / 2\<bar>
             / ((put_strike (inputs self) + call_strike (inputs self)) / 2)
      else 1)"
  "iv_rank (fst (compute_metrics self)) = iv_rank_pct (inputs self) / 100"
  by (simp_all add: compute_metrics_def Let_def)

lemma compute_metrics_again [simp]:
  "fst (compute_metrics (snd (compute_metrics self))) = fst (compute_metrics self)"
  by (simp add: compute_metrics_def Let_def)

lemma evaluate_status_lights_fresh:
  assumes "metrics self = None"
  shows "fst (evaluate_status_lights self) =
     [(''Price Location'',
         traffic (dist_from_mid (fst (compute_metrics self))) (\<lambda>x. x \<le> 0.01) (\<lambda>x. x \<le> 0.02)),
      (''Term Structure'',
         traffic (term_gap_pts (fst (compute_metrics self))) (\<lambda>x. x \<ge> 2) (\<lambda>x. x \<ge> 1)),
      (''IV Rank'',
         traffic (iv_rank (fst (compute_metrics self)))
           (\<lambda>x. 0.30 \<le> x \<and> x \<le> 0.50)
           (\<lambda>x. (0.20 \<le> x \<and> x < 0.30) \<or> (0.50 < x \<and> x \<le> 0.60))),
      (''Event Proximity'',
         traffic (days_to_event (inputs self)) (\<lambda>x. 3 \<le> x \<and> x \<le> 7) (\<lambda>x. 1 \<le> x \<and> x \<le> 2)),
      (''VIX'',
         traffic (vix_value (inputs self)) (\<lambda>x. 14 \<le> x \<and> x \<le> 20) (\<lambda>x. 20 < x \<and> x \<le> 25))]
     @ (if use_atr (inputs self)
        then [(''ATR Guardrail'',
                 traffic (atr_ok (fst (compute_metrics self))) (\<lambda>ok. ok = True) (\<lambda>ok. False))]
        else [])"
  using assms by (simp add: evaluate_status_lights_def Let_def)

lemma evaluate_status_lights_computed:
  "fst (evaluate_status_lights (snd (compute_metrics self))) =
   fst (evaluate_status_lights (self\<lparr>metrics := None\<rparr>))"
  by (simp add: evaluate_status_lights_def Let_def compute_metrics_def)

lemma evaluate_status_lights_state [simp]:
  "statuses (snd (evaluate_status_lights self)) = fst (evaluate_status_lights self)"
  "inputs (snd (evaluate_status_lights self)) = inputs self"
  by (simp_all add: evaluate_status_lights_def Let_def split: option.splits)

lemma evaluate_status_lights_metrics [simp]:
  "metrics (snd (evaluate_status_lights (snd (compute_metrics self)))) = Some (fst (compute_metrics self))"
  by (simp add: evaluate_status_lights_def Let_def)

lemma evaluate_status_lights_eq:
  assumes "ms = (case metrics self of None \<Rightarrow> fst (compute_metrics self) | Some x \<Rightarrow> x)"
  shows "fst (evaluate_status_lights self) =
     [(''Price Location'',
         traffic (dist_from_mid ms) (\<lambda>x. x \<le> 0.01) (\<lambda>x. x \<le> 0.02)),
      (''Term Structure'',
         traffic (term_gap_pts ms) (\<lambda>x. x \<ge> 2) (\<lambda>x. x \<ge> 1)),
      (''IV Rank'',
         traffic (iv_rank ms)
           (\<lambda>x. 0.30 \<le> x \<and> x \<le> 0.50)
           (\<lambda>x. (0.20 \<le> x \<and> x < 0.30) \<or> (0.50 < x \<and> x \<le> 0.60))),
      (''Event Proximity'',
         traffic (days_to_event (inputs self)) (\<lambda>x. 3 \<le> x \<and> x \<le> 7) (\<lambda>x. 1 \<le> x \<and> x \<le> 2)),
      (''VIX'',
         traffic (vix_value (inputs self)) (\<lambda>x. 14 \<le> x \<and> x \<le> 20) (\<lambda>x. 20 < x \<and> x \<le> 25))]
     @ (if use_atr (inputs self)
        then [(''ATR Guardrail'', traffic (atr_ok ms) (\<lambda>ok. ok = True) (\<lambda>ok. False))]
        else [])"
proof (cases "metrics self")
  case None
  with assms have ms: "ms = fst (compute_metrics self)" by simp
  show ?thesis unfolding ms by (rule evaluate_status_lights_fresh [OF None])
next
  case (Some x)
  with assms have ms: "ms = x" by simp
  show ?thesis unfolding ms using Some
    by (simp add: evaluate_status_lights_def Let_def)
qed

lemma evaluate_status_lights_metrics_any:
  "metrics (snd (evaluate_status_lights self)) =
     Some (case metrics self of None \<Rightarrow> fst (compute_metrics self) | Some x \<Rightarrow> x)"
  by (cases "metrics self") (simp_all add: evaluate_status_lights_def Let_def)

lemma get_strategy_suggestions_eq:
  assumes "ms = (case metrics self of None \<Rightarrow> fst (compute_metrics self) | Some x \<Rightarrow> x)"
      and "st = (if statuses self = [] then fst (evaluate_status_lights self) else statuses self)"
  shows "fst (get_strategy_suggestions self) =
     (let s0 = [];
          s1 = (if dict_get st ''IV Rank'' = Some GREEN
                   \<and> dict_get st ''Term Structure'' \<in> {Some GREEN, Some YELLOW}
                   \<and> dict_get st ''Price Location'' \<noteq> Some RED
                then s0 @ [DOUBLE_CALENDAR] else s0);
          s2 = (if iv_rank ms < 0.25 \<and> dict_get st ''Price Location'' = Some GREEN
                then s1 @ [OTM_VERTICAL] else s1);
          s3 = (if 0.45 < iv_rank ms \<and> iv_rank ms \<le> 0.60
                   \<and> vix_value (inputs self) \<ge> 18
                   \<and> dict_get st ''Price Location'' = Some GREEN
                then s2 @ [IRON_CONDOR] else s2)
      in if s3 = [] then s3 @ [NO_TRADE] else s3)"
proof -
  define self1 where
    "self1 = (case metrics self of None \<Rightarrow> snd (compute_metrics self) | Some _ \<Rightarrow> self)"
  define self2 where
    "self2 = (if statuses self1 = [] then snd (evaluate_status_lights self1) else self1)"
  have m1: "metrics self1 = Some ms"
    unfolding self1_def assms(1) by (cases "metrics self") simp_all
  have s1: "statuses self1 = statuses self" and i1: "inputs self1 = inputs self"
    unfolding self1_def by (cases "metrics self"; simp)+
  have e1: "fst (evaluate_status_lights self1) = fst (evaluate_status_lights self)"
  proof (cases "metrics self")
    case None
    then have same: "self\<lparr>metrics := None\<rparr> = self" by simp
    have "fst (evaluate_status_lights (snd (compute_metrics self))) =
          fst (evaluate_status_lights self)"
      using evaluate_status_lights_computed [of self] unfolding same .
    with None show ?thesis unfolding self1_def by simp
  next
    case (Some x)
    then show ?thesis unfolding self1_def by simp
  qed
  have m2: "(case metrics self2 of None \<Rightarrow> fst (compute_metrics self2) | Some x \<Rightarrow> x) = ms"
    unfolding self2_def using m1 by (simp add: evaluate_status_lights_metrics_any)
  have s2: "statuses self2 = st"
    unfolding self2_def assms(2) using e1 s1 by simp
  have i2: "inputs self2 = inputs self"
    unfolding self2_def using i1 by simp
  have "fst (get_strategy_suggestions self) =
     (let ms' = (case metrics self2 of None \<Rightarrow> fst (compute_metrics self2) | Some x \<Rightarrow> x);
          st' = statuses self2;
          s0 = [];
          s1 = (if dict_get st' ''IV Rank'' = Some GREEN
                   \<and> dict_get st' ''Term Structure'' \<in> {Some GREEN, Some YELLOW}
                   \<and> dict_get st' ''Price Location'' \<noteq> Some RED
                then s0 @ [DOUBLE_CALENDAR] else s0);
          s2 = (if iv_rank ms' < 0.25 \<and> dict_get st' ''Price Location'' = Some GREEN
                then s1 @ [OTM_VERTICAL] else s1);
          s3 = (if 0.45 < iv_rank ms' \<and> iv_rank ms' \<le> 0.60
                   \<and> vix_value (inputs self2) \<ge> 18
                   \<and> dict_get st' ''Price Location'' = Some GREEN
                then s2 @ [IRON_CONDOR] else s2)
      in if s3 = [] then s3 @ [NO_TRADE] else s3)"
    unfolding get_strategy_suggestions_def self2_def self1_def
    by (simp only: Let_def fst_conv)
  then show ?thesis unfolding m2 s2 i2 by (simp only: Let_def)
qed


lemma valid_inputs_init:
  "OptionsModel_init (valid_inputs\<lparr>price := p, iv_rank_pct := r, use_atr := b\<rparr>)
   = Inr \<lparr>inputs = valid_inputs\<lparr>price := p, iv_rank_pct := r, use_atr := b\<rparr>,
          metrics = None, statuses = []\<rparr>"
  if "p > 0" and "0 \<le> r" and "r \<le> 100"
  using that
  by (simp add: OptionsModel_init_def validate_inputs_def valid_inputs_def validate_positive_def
        validate_strikes_def validate_range_def)

lemma wide_strikes_dist:
  "dist_from_mid (fst (compute_metrics
       \<lparr>inputs = valid_inputs\<lparr>price := q, put_strike := 999990, call_strike := 1000010\<rparr>,
        metrics = None, statuses = []\<rparr>)) = \<bar>q - 1000000\<bar> / 1000000"
  by (simp add: valid_inputs_def)

text \<open>
  Claim C7. \<open>validate_strikes\<close> raises \<open>ValidationError\<close> when the put strike equals or
  exceeds the call strike and returns \<open>True\<close> when it is strictly less. \<open>validate_inputs\<close>
  raises \<open>ValidationError\<close> whenever the put strike is not less than the call strike; on
  inputs that pass the checks before it (positive price and strikes) the error is the one
  of the strike check. When the put strike is less than the call strike, the strike check
  is not the one that fails, and inputs that are valid otherwise are returned as they are.
\<close>

theorem validate_strikes_relation:
  "(put \<ge> call \<longrightarrow> validate_strikes put call = Inl (ValidationError strikes_message))
   \<and> (put < call \<longrightarrow> validate_strikes put call = Inr True)
   \<and> (put_strike inp \<ge> call_strike inp \<longrightarrow> (\<exists>msg. validate_inputs inp = Inl (ValidationError msg)))
   \<and> (price inp > 0 \<and> put_strike inp > 0 \<and> call_strike inp > 0
        \<and> put_strike inp \<ge> call_strike inp
      \<longrightarrow> validate_inputs inp = Inl (ValidationError strikes_message))
   \<and> (put_strike inp < call_strike inp
      \<longrightarrow> validate_inputs inp \<noteq> Inl (ValidationError strikes_message))
   \<and> (price inp > 0 \<and> put_strike inp > 0 \<and> call_strike inp > 0
        \<and> put_strike inp < call_strike inp
        \<and> front_put_iv inp \<ge> 0 \<and> front_call_iv inp \<ge> 0 \<and> back_put_iv inp \<ge> 0
        \<and> back_call_iv inp \<ge> 0 \<and> 0 \<le> iv_rank_pct inp \<and> iv_rank_pct inp \<le> 100
        \<and> days_to_event inp \<ge> 0 \<and> vix_value inp > 0
        \<and> (use_atr inp \<longrightarrow> atr_points inp > 0)
      \<longrightarrow> validate_inputs inp = Inr inp)"
proof -
  have strikes: "validate_strikes put call =
      (if put \<ge> call then Inl (ValidationError strikes_message) else Inr True)" for put call
    by (simp add: validate_strikes_def)
  have raised: "\<exists>msg. validate_inputs inp = Inl (ValidationError msg)"
    if "put_strike inp \<ge> call_strike inp"
    using that
    by (simp add: validate_inputs_def validate_positive_def strikes)
  have exact: "validate_inputs inp = Inl (ValidationError strikes_message)"
    if "price inp > 0" "put_strike inp > 0" "call_strike inp > 0"
       "put_strike inp \<ge> call_strike inp"
    using that by (simp add: validate_inputs_def validate_positive_def strikes)
  have other: "validate_inputs inp \<noteq> Inl (ValidationError strikes_message)"
    if "put_strike inp < call_strike inp"
    using that
    by (simp add: validate_inputs_def validate_positive_def strikes validate_range_def
          strikes_message_def)
  have passes: "validate_inputs inp = Inr inp"
    if "price inp > 0" "put_strike inp > 0" "call_strike inp > 0"
       "put_strike inp < call_strike inp"
       "front_put_iv inp \<ge> 0" "front_call_iv inp \<ge> 0" "back_put_iv inp \<ge> 0"
       "back_call_iv inp \<ge> 0" "0 \<le> iv_rank_pct inp" "iv_rank_pct inp \<le> 100"
       "days_to_event inp \<ge> 0" "vix_value inp > 0" "use_atr inp \<longrightarrow> atr_points inp > 0"
    using that
    by (auto simp: validate_inputs_def validate_positive_def strikes validate_range_def)
  from strikes raised exact other passes show ?thesis by simp
qed

text \<open>
  The valid inputs of the tests pass; with the put strike raised to the call strike (445),
  or with put 450 and call 430 as in the tests' invalid strikes, the strike check fails.
\<close>

theorem validate_strikes_relation_witness:
  "validate_strikes 100 100 = Inl (ValidationError strikes_message)
   \<and> validate_strikes 110 100 = Inl (ValidationError strikes_message)
   \<and> validate_strikes 100 110 = Inr True
   \<and> validate_inputs (valid_inputs\<lparr>put_strike := 445\<rparr>) = Inl (ValidationError strikes_message)
   \<and> validate_inputs (valid_inputs\<lparr>put_strike := 450, call_strike := 430\<rparr>)
       = Inl (ValidationError strikes_message)
   \<and> validate_inputs valid_inputs = Inr valid_inputs"
  using validate_strikes_relation [of 100 100 "valid_inputs\<lparr>put_strike := 445\<rparr>"]
        validate_strikes_relation [of 110 100 "valid_inputs\<lparr>put_strike := 450, call_strike := 430\<rparr>"]
        validate_strikes_relation [of 100 110 valid_inputs]
  by (simp add: valid_inputs_def)

text \<open>
  Claim C5. In every state of the model object, whether the metrics were computed before
  or not and whatever statuses it held, and so for every validated input record,
  \<open>evaluate_status_lights\<close> returns a mapping whose keys are, in this order, Price Location,
  Term Structure, IV Rank, Event Proximity and VIX, followed by ATR Guardrail exactly when
  the ATR flag is set: 5 entries without the flag and 6 with it, no key twice, and every
  value one of GREEN, YELLOW, RED.
\<close>

theorem evaluate_status_lights_entries:
  "map fst (fst (evaluate_status_lights self)) =
           (if use_atr (inputs self)
            then [''Price Location'', ''Term Structure'', ''IV Rank'', ''Event Proximity'', ''VIX'',
                  ''ATR Guardrail'']
            else [''Price Location'', ''Term Structure'', ''IV Rank'', ''Event Proximity'', ''VIX''])
       \<and> length (fst (evaluate_status_lights self)) = (if use_atr (inputs self) then 6 else 5)
       \<and> distinct (map fst (fst (evaluate_status_lights self)))
       \<and> (\<forall>s \<in> set (dict_values (fst (evaluate_status_lights self))).
             s = GREEN \<or> s = YELLOW \<or> s = RED)"
proof -
  note eq = evaluate_status_lights_eq [OF refl, of self]
  have names: "map fst (fst (evaluate_status_lights self)) =
           (if use_atr (inputs self)
            then [''Price Location'', ''Term Structure'', ''IV Rank'', ''Event Proximity'', ''VIX'',
                  ''ATR Guardrail'']
            else [''Price Location'', ''Term Structure'', ''IV Rank'', ''Event Proximity'', ''VIX''])"
    unfolding eq by simp
  have len: "length (fst (evaluate_status_lights self)) = (if use_atr (inputs self) then 6 else 5)"
    unfolding eq by simp
  have dist: "distinct (map fst (fst (evaluate_status_lights self)))"
    unfolding names by simp
  have vals: "\<forall>s \<in> set (dict_values (fst (evaluate_status_lights self))).
             s = GREEN \<or> s = YELLOW \<or> s = RED"
    unfolding eq dict_values_def by (simp add: traffic_cases)
  from names len dist vals show ?thesis by blast
qed

text \<open>
  The valid inputs of the tests pass validation. The keys are the six with the ATR flag
  set and the five with it cleared on the new object, and the six again on the object
  after \<open>compute_metrics\<close> and after a first \<open>evaluate_status_lights\<close>.
\<close>

theorem evaluate_status_lights_entries_witness:
  "OptionsModel_init valid_inputs = Inr \<lparr>inputs = valid_inputs, metrics = None, statuses = []\<rparr>
   \<and> map fst (fst (evaluate_status_lights
         \<lparr>inputs = valid_inputs, metrics = None, statuses = []\<rparr>))
     = [''Price Location'', ''Term Structure'', ''IV Rank'', ''Event Proximity'', ''VIX'',
        ''ATR Guardrail'']
   \<and> map fst (fst (evaluate_status_lights
         \<lparr>inputs = valid_inputs\<lparr>use_atr := False\<rparr>, metrics = None, statuses = []\<rparr>))
     = [''Price Location'', ''Term Structure'', ''IV Rank'', ''Event Proximity'', ''VIX'']
   \<and> map fst (fst (evaluate_status_lights
         (snd (compute_metrics \<lparr>inputs = valid_inputs, metrics = None, statuses = []\<rparr>))))
     = [''Price Location'', ''Term Structure'', ''IV Rank'', ''Event Proximity'', ''VIX'',
        ''ATR Guardrail'']
   \<and> map fst (fst (evaluate_status_lights
         (snd (evaluate_status_lights
            (snd (compute_metrics \<lparr>inputs = valid_inputs, metrics = None, statuses = []\<rparr>))))))
     = [''Price Location'', ''Term Structure'', ''IV Rank'', ''Event Proximity'', ''VIX'',
        ''ATR Guardrail'']"
proof -
  have i: "OptionsModel_init valid_inputs
      = Inr \<lparr>inputs = valid_inputs, metrics = None, statuses = []\<rparr>"
    using valid_inputs_init [of 435 45 True] by (simp add: valid_inputs_def)
  have u: "use_atr valid_inputs" "\<not> use_atr (valid_inputs\<lparr>use_atr := False\<rparr>)"
    by (simp_all add: valid_inputs_def)
  from evaluate_status_lights_entries [of "\<lparr>inputs = valid_inputs, metrics = None, statuses = []\<rparr>"]
       evaluate_status_lights_entries
         [of "\<lparr>inputs = valid_inputs\<lparr>use_atr := False\<rparr>, metrics = None, statuses = []\<rparr>"]
       evaluate_status_lights_entries
         [of "snd (compute_metrics \<lparr>inputs = valid_inputs, metrics = None, statuses = []\<rparr>)"]
       evaluate_status_lights_entries
         [of "snd (evaluate_status_lights
            (snd (compute_metrics \<lparr>inputs = valid_inputs, metrics = None, statuses = []\<rparr>)))"]
       i u
  show ?thesis by simp
qed

text \<open>
  Claim C4. Let \<open>ms\<close> be the metrics \<open>evaluate_status_lights\<close> reads: the ones the object
  holds, or the ones \<open>compute_metrics\<close> yields when it holds none. The Price Location
  status is GREEN when the distance fraction of \<open>ms\<close> is exactly 0.01, YELLOW when it is
  0.010001 or 0.02, and RED when it is 0.020001. The statement is about the value of the
  metric, however the division of \<open>compute_metrics\<close> rounds.
\<close>

theorem price_location_boundaries:
  assumes "ms = (case metrics self of None \<Rightarrow> fst (compute_metrics self) | Some x \<Rightarrow> x)"
  shows "(dist_from_mid ms = 0.01 \<longrightarrow>
            dict_get (fst (evaluate_status_lights self)) ''Price Location'' = Some GREEN)
       \<and> (dist_from_mid ms = 0.010001 \<longrightarrow>
            dict_get (fst (evaluate_status_lights self)) ''Price Location'' = Some YELLOW)
       \<and> (dist_from_mid ms = 0.02 \<longrightarrow>
            dict_get (fst (evaluate_status_lights self)) ''Price Location'' = Some YELLOW)
       \<and> (dist_from_mid ms = 0.020001 \<longrightarrow>
            dict_get (fst (evaluate_status_lights self)) ''Price Location'' = Some RED)"
proof -
  have pl: "dict_get (fst (evaluate_status_lights self)) ''Price Location'' =
      Some (traffic (dist_from_mid ms) (\<lambda>x. x \<le> 0.01) (\<lambda>x. x \<le> 0.02))"
    unfolding evaluate_status_lights_eq [OF assms] by (simp add: dict_get_def)
  show ?thesis unfolding pl by (simp add: traffic_def)
qed

text \<open>
  With strikes 999990 and 1000010 the midpoint is 1000000, and the prices 1010000,
  1010001, 1020000 and 1020001 lie at the four distance fractions. Sum, difference and
  midpoint are whole numbers, exact in double precision, and each quotient is the double
  of the literal it is compared with, so the program computes the same four statuses.
  The first input passes validation, and the status is the same on the object after
  \<open>compute_metrics\<close>.
\<close>

theorem price_location_boundaries_witness:
  "OptionsModel_init (valid_inputs\<lparr>price := 1010000, put_strike := 999990, call_strike := 1000010\<rparr>)
     = Inr \<lparr>inputs = valid_inputs\<lparr>price := 1010000, put_strike := 999990, call_strike := 1000010\<rparr>,
            metrics = None, statuses = []\<rparr>
   \<and> dict_get (fst (evaluate_status_lights
       \<lparr>inputs = valid_inputs\<lparr>price := 1010000, put_strike := 999990, call_strike := 1000010\<rparr>,
        metrics = None, statuses = []\<rparr>)) ''Price Location'' = Some GREEN
   \<and> dict_get (fst (evaluate_status_lights
       \<lparr>inputs = valid_inputs\<lparr>price := 1010001, put_strike := 999990, call_strike := 1000010\<rparr>,
        metrics = None, statuses = []\<rparr>)) ''Price Location'' = Some YELLOW
   \<and> dict_get (fst (evaluate_status_lights
       \<lparr>inputs = valid_inputs\<lparr>price := 1020000, put_strike := 999990, call_strike := 1000010\<rparr>,
        metrics = None, statuses = []\<rparr>)) ''Price Location'' = Some YELLOW
   \<and> dict_get (fst (evaluate_status_lights
       \<lparr>inputs = valid_inputs\<lparr>price := 1020001, put_strike := 999990, call_strike := 1000010\<rparr>,
        metrics = None, statuses = []\<rparr>)) ''Price Location'' = Some RED
   \<and> dict_get (fst (evaluate_status_lights (snd (compute_metrics
       \<lparr>inputs = valid_inputs\<lparr>price := 1010000, put_strike := 999990, call_strike := 1000010\<rparr>,
        metrics = None, statuses = []\<rparr>)))) ''Price Location'' = Some GREEN"
proof -
  let ?f = "\<lambda>q. \<lparr>inputs = valid_inputs\<lparr>price := q, put_strike := 999990, call_strike := 1000010\<rparr>,
        metrics = None, statuses = []\<rparr>"
  have i: "OptionsModel_init (valid_inputs\<lparr>price := 1010000, put_strike := 999990, call_strike := 1000010\<rparr>)
     = Inr (?f 1010000)"
    by (simp add: OptionsModel_init_def validate_inputs_def valid_inputs_def validate_positive_def
        validate_strikes_def validate_range_def)
  have a: "dict_get (fst (evaluate_status_lights (?f 1010000))) ''Price Location'' = Some GREEN"
    using price_location_boundaries [of "fst (compute_metrics (?f 1010000))" "?f 1010000"]
    unfolding wide_strikes_dist by simp
  have b: "dict_get (fst (evaluate_status_lights (?f 1010001))) ''Price Location'' = Some YELLOW"
    using price_location_boundaries [of "fst (compute_metrics (?f 1010001))" "?f 1010001"]
    unfolding wide_strikes_dist by simp
  have c: "dict_get (fst (evaluate_status_lights (?f 1020000))) ''Price Location'' = Some YELLOW"
    using price_location_boundaries [of "fst (compute_metrics (?f 1020000))" "?f 1020000"]
    unfolding wide_strikes_dist by simp
  have d: "dict_get (fst (evaluate_status_lights (?f 1020001))) ''Price Location'' = Some RED"
    using price_location_boundaries [of "fst (compute_metrics (?f 1020001))" "?f 1020001"]
    unfolding wide_strikes_dist by simp
  have e: "dict_get (fst (evaluate_status_lights (snd (compute_metrics (?f 1010000)))))
      ''Price Location'' = Some GREEN"
    using price_location_boundaries
      [of "fst (compute_metrics (?f 1010000))" "snd (compute_metrics (?f 1010000))"]
    unfolding wide_strikes_dist by (simp del: compute_metrics_fields)
  from i a b c d e show ?thesis by simp
qed

text \<open>
  Claim C8. In every state of the model object, and so for every validated input record,
  \<open>get_strategy_suggestions\<close> returns a list that is not empty. Here \<open>ms\<close> and \<open>st\<close> are the
  metrics and statuses the method reads: the ones the object holds, or the ones it computes
  first when it holds none. The calendar, vertical and iron-condor rules are checked in
  this order and each contributes at most its own suggestion, once; when none of the three
  conditions holds the result is the list of the no-trade suggestion alone.
\<close>

theorem get_strategy_suggestions_nonempty:
  assumes "ms = (case metrics self of None \<Rightarrow> fst (compute_metrics self) | Some x \<Rightarrow> x)"
      and "st = (if statuses self = [] then fst (evaluate_status_lights self) else statuses self)"
      and "calendar = (dict_get st ''IV Rank'' = Some GREEN
             \<and> dict_get st ''Term Structure'' \<in> {Some GREEN, Some YELLOW}
             \<and> dict_get st ''Price Location'' \<noteq> Some RED)"
      and "vertical = (iv_rank ms < 0.25 \<and> dict_get st ''Price Location'' = Some GREEN)"
      and "condor = (0.45 < iv_rank ms \<and> iv_rank ms \<le> 0.60
             \<and> vix_value (inputs self) \<ge> 18 \<and> dict_get st ''Price Location'' = Some GREEN)"
  shows "fst (get_strategy_suggestions self) \<noteq> []
       \<and> fst (get_strategy_suggestions self) =
           (if calendar then [DOUBLE_CALENDAR] else [])
           @ (if vertical then [OTM_VERTICAL] else [])
           @ (if condor then [IRON_CONDOR] else [])
           @ (if \<not> calendar \<and> \<not> vertical \<and> \<not> condor then [NO_TRADE] else [])
       \<and> (\<not> calendar \<and> \<not> vertical \<and> \<not> condor
            \<longrightarrow> fst (get_strategy_suggestions self) = [NO_TRADE])"
proof -
  have eq: "fst (get_strategy_suggestions self) =
           (if calendar then [DOUBLE_CALENDAR] else [])
           @ (if vertical then [OTM_VERTICAL] else [])
           @ (if condor then [IRON_CONDOR] else [])
           @ (if \<not> calendar \<and> \<not> vertical \<and> \<not> condor then [NO_TRADE] else [])"
    unfolding get_strategy_suggestions_eq [OF assms(1,2)] Let_def assms(3,4,5)
    by auto
  then show ?thesis by auto
qed

text \<open>
  On the new object the valid inputs of the tests give the calendar suggestion alone, and
  with an IV rank of 70 no rule fires and the result is the no-trade suggestion; on the
  object after \<open>compute_metrics\<close> and \<open>evaluate_status_lights\<close> the valid inputs give the
  calendar suggestion again.
\<close>

theorem get_strategy_suggestions_nonempty_witness:
  "fst (get_strategy_suggestions
       \<lparr>inputs = valid_inputs, metrics = None, statuses = []\<rparr>) = [DOUBLE_CALENDAR]
   \<and> fst (get_strategy_suggestions
       \<lparr>inputs = valid_inputs\<lparr>iv_rank_pct := 70\<rparr>, metrics = None, statuses = []\<rparr>) = [NO_TRADE]
   \<and> fst (get_strategy_suggestions
       (snd (evaluate_status_lights
          (snd (compute_metrics \<lparr>inputs = valid_inputs, metrics = None, statuses = []\<rparr>)))))
       = [DOUBLE_CALENDAR]"
proof -
  let ?a = "\<lparr>inputs = valid_inputs, metrics = None, statuses = []\<rparr>"
  let ?b = "\<lparr>inputs = valid_inputs\<lparr>iv_rank_pct := 70\<rparr>, metrics = None, statuses = []\<rparr>"
  let ?c = "snd (evaluate_status_lights (snd (compute_metrics ?a)))"
  have st: "fst (evaluate_status_lights ?a)
     = [(''Price Location'', GREEN), (''Term Structure'', GREEN), (''IV Rank'', GREEN),
        (''Event Proximity'', GREEN), (''VIX'', GREEN), (''ATR Guardrail'', GREEN)]"
    by (simp add: evaluate_status_lights_fresh traffic_def valid_inputs_def compute_metrics_def
          Let_def)
  have st': "fst (evaluate_status_lights ?b)
     = [(''Price Location'', GREEN), (''Term Structure'', GREEN), (''IV Rank'', RED),
        (''Event Proximity'', GREEN), (''VIX'', GREEN), (''ATR Guardrail'', GREEN)]"
    by (simp add: evaluate_status_lights_fresh traffic_def valid_inputs_def compute_metrics_def
          Let_def)
  have stc: "statuses ?c = fst (evaluate_status_lights ?a)"
    using evaluate_status_lights_computed [of ?a] by simp
  have mc: "metrics ?c = Some (fst (compute_metrics ?a))" by simp
  have ic: "inputs ?c = valid_inputs" by simp
  have rk: "iv_rank (fst (compute_metrics ?a)) = 0.45" "iv_rank (fst (compute_metrics ?b)) = 0.70"
    and vx: "vix_value valid_inputs = 18" "vix_value (valid_inputs\<lparr>iv_rank_pct := 70\<rparr>) = 18"
    by (simp_all add: valid_inputs_def)
  have a: "fst (get_strategy_suggestions ?a) = [DOUBLE_CALENDAR]"
    using get_strategy_suggestions_nonempty
      [where self = ?a and ms = "fst (compute_metrics ?a)", OF _ refl refl refl refl]
    unfolding rk by (simp add: st dict_get_def GREEN_def YELLOW_def RED_def vx)
  have b: "fst (get_strategy_suggestions ?b) = [NO_TRADE]"
    using get_strategy_suggestions_nonempty
      [where self = ?b and ms = "fst (compute_metrics ?b)", OF _ refl refl refl refl]
    unfolding rk by (simp add: st' dict_get_def GREEN_def YELLOW_def RED_def vx)
  have c: "fst (get_strategy_suggestions ?c) = [DOUBLE_CALENDAR]"
    using get_strategy_suggestions_nonempty
      [where self = ?c and ms = "fst (compute_metrics ?a)", OF _ refl refl refl refl]
    unfolding mc stc ic rk by (simp add: st dict_get_def GREEN_def YELLOW_def RED_def vx)
  from a b c show ?thesis by simp
qed

section \<open>Facts about the market data client\<close>

lemma iv_rank_primary_bounds: "iv_rank_primary env = Some r \<Longrightarrow> 0 \<le> r \<and> r \<le> 100"
  by (auto simp: iv_rank_primary_def Let_def split: if_splits sum.splits)

lemma iv_rank_fallback_bounds: "iv_rank_fallback env = Some r \<Longrightarrow> 0 \<le> r \<and> r \<le> 100"
  by (auto simp: iv_rank_fallback_def Let_def split: if_splits sum.splits)

lemma rank_in_range:
  fixes c lo hi :: real
  assumes "lo \<le> c" and "c \<le> hi" and "lo < hi"
  defines "q \<equiv> (c - lo) / (hi - lo) * 100"
  shows "0 \<le> max 0 (min 100 q) \<and> max 0 (min 100 q) \<le> 100
       \<and> (c = hi \<longrightarrow> max 0 (min 100 q) = 100)
       \<and> (c = lo \<longrightarrow> max 0 (min 100 q) = 0)"
proof -
  have top: "q = 100" if "c = hi"
    using that assms(3) unfolding q_def by simp
  have bot: "q = 0" if "c = lo"
    using that unfolding q_def by simp
  from top bot show ?thesis by auto
qed

lemma rank_formula:
  fixes xs :: "real list"
  assumes "xs \<noteq> []" and "Max (set xs) > Min (set xs)"
  defines "q \<equiv> (last xs - Min (set xs)) / (Max (set xs) - Min (set xs)) * 100"
  shows "0 \<le> max 0 (min 100 q) \<and> max 0 (min 100 q) \<le> 100
       \<and> (last xs = Max (set xs) \<longrightarrow> max 0 (min 100 q) = 100)
       \<and> (last xs = Min (set xs) \<longrightarrow> max 0 (min 100 q) = 0)"
proof -
  have mem: "last xs \<in> set xs" using assms(1) by simp
  have lo: "Min (set xs) \<le> last xs" using mem by simp
  have hi: "last xs \<le> Max (set xs)" using mem by simp
  show ?thesis unfolding q_def using lo hi assms(2) by (rule rank_in_range)
qed

text \<open>
  Claim C6. Whatever \<open>get_iv_rank\<close> returns lies in the interval from 0 to 100. For a
  series of the primary provider with at least 5 finite observations and maximum above
  minimum it returns the clamped value of (current - min) / (max - min) * 100, which is
  100 when the current value is the maximum and 0 when it is the minimum; the same holds
  for the fallback over the closes of the volatility index, once the first block has not
  returned.
\<close>

theorem get_iv_rank_clamped:
  "(get_iv_rank env = Some r \<longrightarrow> 0 \<le> r \<and> r \<le> 100)
   \<and> (connected env \<and> option_class env \<and> iv_bars env = Inr bars
        \<and> series = List.map_filter (\<lambda>c. c) bars
        \<and> length series \<ge> 5 \<and> Max (set series) > Min (set series)
      \<longrightarrow> (\<exists>rank. get_iv_rank env = Some rank
            \<and> rank = max 0 (min 100
                 ((last series - Min (set series)) / (Max (set series) - Min (set series)) * 100))
            \<and> 0 \<le> rank \<and> rank \<le> 100
            \<and> (last series = Max (set series) \<longrightarrow> rank = 100)
            \<and> (last series = Min (set series) \<longrightarrow> rank = 0)))
   \<and> (iv_rank_primary env = None \<and> yf_module env \<and> vix_closes env = Inr closes
        \<and> s = List.map_filter (\<lambda>c. c) closes
        \<and> s \<noteq> [] \<and> Max (set s) > Min (set s)
      \<longrightarrow> (\<exists>rank. get_iv_rank env = Some rank
            \<and> rank = max 0 (min 100
                 ((last s - Min (set s)) / (Max (set s) - Min (set s)) * 100))
            \<and> 0 \<le> rank \<and> rank \<le> 100
            \<and> (last s = Max (set s) \<longrightarrow> rank = 100)
            \<and> (last s = Min (set s) \<longrightarrow> rank = 0)))"
proof -
  have bounds: "0 \<le> r \<and> r \<le> 100" if "get_iv_rank env = Some r"
    using that iv_rank_primary_bounds [of env r] iv_rank_fallback_bounds [of env r]
    by (auto simp: get_iv_rank_def split: option.splits)
  have primary: "\<exists>rank. get_iv_rank env = Some rank
            \<and> rank = max 0 (min 100
                 ((last series - Min (set series)) / (Max (set series) - Min (set series)) * 100))
            \<and> 0 \<le> rank \<and> rank \<le> 100
            \<and> (last series = Max (set series) \<longrightarrow> rank = 100)
            \<and> (last series = Min (set series) \<longrightarrow> rank = 0)"
    if h: "connected env" "option_class env" "iv_bars env = Inr bars"
       "series = List.map_filter (\<lambda>c. c) bars"
       "length series \<ge> 5" "Max (set series) > Min (set series)"
  proof -
    from h(5) have ne: "series \<noteq> []" by auto
    have "iv_rank_primary env = Some (max 0 (min 100
        ((last series - Min (set series)) / (Max (set series) - Min (set series)) * 100)))"
      using h by (simp add: iv_rank_primary_def Let_def)
    then have "get_iv_rank env = Some (max 0 (min 100
        ((last series - Min (set series)) / (Max (set series) - Min (set series)) * 100)))"
      by (simp add: get_iv_rank_def)
    with rank_formula [OF ne h(6)] show ?thesis by blast
  qed
  have fallback: "\<exists>rank. get_iv_rank env = Some rank
            \<and> rank = max 0 (min 100
                 ((last s - Min (set s)) / (Max (set s) - Min (set s)) * 100))
            \<and> 0 \<le> rank \<and> rank \<le> 100
            \<and> (last s = Max (set s) \<longrightarrow> rank = 100)
            \<and> (last s = Min (set s) \<longrightarrow> rank = 0)"
    if h: "iv_rank_primary env = None" "yf_module env" "vix_closes env = Inr closes"
       "s = List.map_filter (\<lambda>c. c) closes" "s \<noteq> []" "Max (set s) > Min (set s)"
  proof -
    from h(4,5) have "closes \<noteq> []" by (auto simp: List.map_filter_simps)
    then have "iv_rank_fallback env = Some (max 0 (min 100
        ((last s - Min (set s)) / (Max (set s) - Min (set s)) * 100)))"
      using h by (simp add: iv_rank_fallback_def Let_def)
    then have "get_iv_rank env = Some (max 0 (min 100
        ((last s - Min (set s)) / (Max (set s) - Min (set s)) * 100)))"
      using h(1) by (simp add: get_iv_rank_def)
    with rank_formula [OF h(5,6)] show ?thesis by blast
  qed
  from bounds primary fallback show ?thesis by blast
qed

text \<open>
  A primary series ending at its maximum (rank 100), one ending at its minimum (rank 0),
  and the fallback on a disconnected client with closes 15, 20, 17 (rank 40).
\<close>

theorem get_iv_rank_clamped_witness:
  "get_iv_rank \<lparr>connected = True, option_class = True, yf_module = True,
       ticker_last = None, ticker_bid = None, ticker_ask = None, ticker_close = None,
       iv_bars = Inr [Some 20, Some 25, None, Some 30, Some 22, Some 30],
       vix_closes = Inr []\<rparr> = Some 100
   \<and> get_iv_rank \<lparr>connected = True, option_class = True, yf_module = True,
       ticker_last = None, ticker_bid = None, ticker_ask = None, ticker_close = None,
       iv_bars = Inr [Some 20, Some 25, None, Some 30, Some 22, Some 20],
       vix_closes = Inr []\<rparr> = Some 0
   \<and> get_iv_rank \<lparr>connected = False, option_class = True, yf_module = True,
       ticker_last = None, ticker_bid = None, ticker_ask = None, ticker_close = None,
       iv_bars = Inr [],
       vix_closes = Inr [Some 15, None, Some 20, Some 17]\<rparr> = Some 40"
proof -
  let ?e1 = "\<lparr>connected = True, option_class = True, yf_module = True,
       ticker_last = None, ticker_bid = None, ticker_ask = None, ticker_close = None,
       iv_bars = Inr [Some 20, Some 25, None, Some 30, Some 22, Some (30::real)],
       vix_closes = Inr []\<rparr>"
  let ?e2 = "\<lparr>connected = True, option_class = True, yf_module = True,
       ticker_last = None, ticker_bid = None, ticker_ask = None, ticker_close = None,
       iv_bars = Inr [Some 20, Some 25, None, Some 30, Some 22, Some (20::real)],
       vix_closes = Inr []\<rparr>"
  let ?e3 = "\<lparr>connected = False, option_class = True, yf_module = True,
       ticker_last = None, ticker_bid = None, ticker_ask = None, ticker_close = None,
       iv_bars = Inr [],
       vix_closes = Inr [Some 15, None, Some 20, Some (17::real)]\<rparr>"
  have s1: "List.map_filter (\<lambda>c. c) [Some 20, Some 25, None, Some 30, Some 22, Some (30::real)]
      = [20, 25, 30, 22, 30]"
    by (simp add: List.map_filter_simps)
  have s2: "List.map_filter (\<lambda>c. c) [Some 20, Some 25, None, Some 30, Some 22, Some (20::real)]
      = [20, 25, 30, 22, 20]"
    by (simp add: List.map_filter_simps)
  have s3: "List.map_filter (\<lambda>c. c) [Some 15, None, Some 20, Some (17::real)] = [15, 20, 17]"
    by (simp add: List.map_filter_simps)
  have p3: "iv_rank_primary ?e3 = None" by (simp add: iv_rank_primary_def)
  have a: "get_iv_rank ?e1 = Some 100"
    using get_iv_rank_clamped [where env = ?e1
        and bars = "[Some 20, Some 25, None, Some 30, Some 22, Some 30]"
        and series = "[20, 25, 30, 22, 30]"]
    by (simp add: s1)
  have b: "get_iv_rank ?e2 = Some 0"
    using get_iv_rank_clamped [where env = ?e2
        and bars = "[Some 20, Some 25, None, Some 30, Some 22, Some 20]"
        and series = "[20, 25, 30, 22, 20]"]
    by (simp add: s2)
  have c: "get_iv_rank ?e3 = Some 40"
    using get_iv_rank_clamped [where env = ?e3
        and closes = "[Some 15, None, Some 20, Some 17]"
        and s = "[15, 20, 17]"] p3
    by (simp add: s3)
  from a b c show ?thesis by simp
qed

text \<open>
  Claim C9, as amended. For every reference date from 0001-01-01 to 9999-12-24,
  \<open>nearest_two_fridays\<close> returns a pair of dates: the first is the first Friday on or after
  the reference date (the date itself when it is a Friday), the second is seven days after
  the first, and the result does not depend on the current date.
\<close>

theorem nearest_two_fridays_fridays:
  assumes "1 \<le> d" and "d \<le> MAXORDINAL - 7"
  shows "\<exists>first second. nearest_two_fridays (Some d) today = Inr (first, second)
           \<and> weekday first = 4 \<and> d \<le> first
           \<and> (\<forall>e. d \<le> e \<and> e < first \<longrightarrow> weekday e \<noteq> 4)
           \<and> (weekday d = 4 \<longrightarrow> first = d)
           \<and> second = first + 7 \<and> weekday second = 4
           \<and> is_date first \<and> is_date second
           \<and> nearest_two_fridays (Some d) today = nearest_two_fridays (Some d) today'"
proof -
  define k where "k = (4 - weekday d) mod 7"
  have k: "0 \<le> k" "k < 7" by (simp_all add: k_def)
  have wk: "weekday (d + k) = 4" unfolding k_def weekday_def by presburger
  have wk7: "weekday (d + k + 7) = 4" unfolding k_def weekday_def by presburger
  have none: "weekday e \<noteq> 4" if "d \<le> e" "e < d + k" for e
    using that unfolding k_def weekday_def by presburger
  have same: "weekday d = 4 \<longrightarrow> d + k = d" unfolding k_def weekday_def by presburger
  have max4: "(MAXORDINAL + 6) mod 7 = 4" by (simp add: MAXORDINAL_def)
  have le: "d + k \<le> MAXORDINAL - 7"
    using assms(2) wk max4 k unfolding weekday_def by presburger
  have first: "(if k = 0 then Inr d else date_add d k) = Inr (d + k)"
    using assms(1) k le by (simp add: date_add_def Let_def)
  have second: "date_add (d + k) 7 = Inr (d + k + 7)"
    using assms(1) k le by (simp add: date_add_def Let_def)
  have res: "nearest_two_fridays (Some d) t = Inr (d + k, d + k + 7)" for t
    unfolding nearest_two_fridays_def Let_def option.case k_def [symmetric] first
    by (simp add: second)
  have dates: "is_date (d + k)" "is_date (d + k + 7)"
    using assms(1) k le by (simp_all add: is_date_def)
  from res wk wk7 none same dates k show ?thesis by auto
qed

text \<open>
  Sunday 2025-08-10 (day 739473): the two Fridays are 2025-08-15 and 2025-08-22.
\<close>

theorem nearest_two_fridays_fridays_witness:
  "nearest_two_fridays (Some 739473) 1 = Inr (739478, 739485)
   \<and> weekday 739473 = 6 \<and> weekday 739478 = 4 \<and> weekday 739485 = 4"
proof -
  have a: "(1::int) \<le> 739473" and b: "739473 \<le> MAXORDINAL - 7"
    by (simp_all add: MAXORDINAL_def)
  have w: "weekday 739473 = 6"
    by (simp add: weekday_def)
  have v: "nearest_two_fridays (Some 739473) 1 = Inr (739478, 739485)"
    by (simp add: nearest_two_fridays_def weekday_def date_add_def MAXORDINAL_def)
  from nearest_two_fridays_fridays [OF a b, of 1 1] v
  have "weekday 739478 = 4 \<and> weekday 739485 = 4" by simp
  with v w show ?thesis by simp
qed

text \<open>
  Claim C9 as stated fails: for the reference date 9999-12-31, a Friday and the last date
  there is, the second Friday is out of range and the addition raises \<open>OverflowError\<close>.
\<close>

theorem nearest_two_fridays_overflow:
  "is_date 3652059 \<and> weekday 3652059 = 4
   \<and> nearest_two_fridays (Some 3652059) 3652059 = Inl OverflowError"
  by (simp add: nearest_two_fridays_def weekday_def date_add_def MAXORDINAL_def is_date_def)

text \<open>
  Claim C2 against the code: on a connected client whose live ticker has a last price of
  635, a bid, an ask and a previous close, \<open>get_underlying_price\<close> returns \<open>None\<close>, as it
  does in every environment.
\<close>

theorem get_underlying_price_absent:
  "get_underlying_price \<lparr>connected = True, option_class = True, yf_module = True,
       ticker_last = Some 635, ticker_bid = Some 634.9, ticker_ask = Some 635.1,
       ticker_close = Some 634, iv_bars = Inr [], vix_closes = Inr []\<rparr> = None
   \<and> get_underlying_price env = None"
  by (simp add: get_underlying_price_def)

end
